theory Spec2Isabelle
  imports Complex_Main
begin

section \<open>Errors and Python values\<close>

text \<open>
  The exceptions that the modelled functions can raise. \<open>LoadError\<close> stands for whatever
  an external reader (\<open>load_transform\<close>, \<open>nb.load\<close>) raises on a file it cannot read.
\<close>

datatype error = IndexError | AttributeError | TypeError | ValueError
  | NotImplementedError | KeyError | LoadError

text \<open>The two kinds of Python value that \<open>format_agg_rois\<close> computes with.\<close>

datatype pyval = PyInt int | PyStr string

definition is_space :: "char \<Rightarrow> bool" where
  "is_space c = (c \<in> set [CHR '' '', CHR 0x09, CHR 0x0A, CHR 0x0B, CHR 0x0C, CHR 0x0D])"

definition strip :: "string \<Rightarrow> string" where
  "strip s = rev (dropWhile is_space (rev (dropWhile is_space s)))"

text \<open>
  Attribute lookup of \<open>.strip()\<close>: a \<open>str\<close> has the method, an \<open>int\<close> has not, and the
  lookup raises AttributeError.
\<close>

fun py_strip :: "pyval \<Rightarrow> error + pyval" where
  "py_strip (PyStr s) = Inr (PyStr (strip s))"
| "py_strip (PyInt n) = Inl AttributeError"

text \<open>The operator \<open>*\<close>: sequence repetition for a string and an integer.\<close>

fun py_mul :: "pyval \<Rightarrow> pyval \<Rightarrow> error + pyval" where
  "py_mul (PyStr s) (PyInt n) = Inr (PyStr (concat (replicate (nat n) s)))"
| "py_mul (PyInt n) (PyStr s) = Inr (PyStr (concat (replicate (nat n) s)))"
| "py_mul (PyInt m) (PyInt n) = Inr (PyInt (m * n))"
| "py_mul (PyStr s) (PyStr t) = Inl TypeError"

section \<open>alignment.py: format\_agg\_rois\<close>

text \<open>
  \<^verbatim>\<open>return rois[0], rois[1:], "-add %s " * (len(rois) - 1).strip()\<close>

  The tuple is evaluated left to right: \<open>rois[0]\<close> (IndexError on an empty list),
  \<open>rois[1:]\<close>, then the product, whose right operand is the attribute reference
  \<open>(len(rois) - 1).strip()\<close>: attribute access binds tighter than \<open>*\<close>.
\<close>

definition format_agg_rois :: "string list \<Rightarrow> error + (string \<times> string list \<times> pyval)" where
  "format_agg_rois rois =
     (if length rois = 0 then Inl IndexError
      else
        let first_image = rois ! 0;
            op_files = drop 1 rois
        in case py_strip (PyInt (int (length rois) - 1)) of
             Inl e \<Rightarrow> Inl e
           | Inr n \<Rightarrow>
               (case py_mul (PyStr ''-add %s '') n of
                  Inl e \<Rightarrow> Inl e
                | Inr op_string \<Rightarrow> Inr (first_image, op_files, op_string)))"

section \<open>Affine transforms\<close>

text \<open>
  A transform is the 4x4 array that \<open>load_transform\<close> returns, written row by row.
  Entries are real numbers: the model idealises the floating-point arithmetic of the
  array library. A point is a triple of world coordinates in mm.
\<close>

type_synonym point = "real \<times> real \<times> real"
type_synonym row = "real \<times> real \<times> real \<times> real"
type_synonym affine = "row \<times> row \<times> row \<times> row"

fun row_dot :: "row \<Rightarrow> row \<Rightarrow> real" where
  "row_dot (a, b, c, d) (x, y, z, w) = a * x + b * y + c * z + d * w"

text \<open>\<open>np.dot\<close> of a 4x4 array and a column of homogeneous coordinates.\<close>

fun mat_vec :: "affine \<Rightarrow> row \<Rightarrow> row" where
  "mat_vec (r0, r1, r2, r3) v = (row_dot r0 v, row_dot r1 v, row_dot r2 v, row_dot r3 v)"

fun transpose4 :: "affine \<Rightarrow> affine" where
  "transpose4 ((a0, a1, a2, a3), (b0, b1, b2, b3), (c0, c1, c2, c3), (d0, d1, d2, d3)) =
     ((a0, b0, c0, d0), (a1, b1, c1, d1), (a2, b2, c2, d2), (a3, b3, c3, d3))"

text \<open>The matrix product \<open>R \<cdot> A\<close> of two 4x4 arrays: the rows of \<open>R\<close> against the columns of \<open>A\<close>.\<close>

fun mat_mul :: "affine \<Rightarrow> affine \<Rightarrow> affine" where
  "mat_mul (r0, r1, r2, r3) A =
     (let At = transpose4 A
      in (mat_vec At r0, mat_vec At r1, mat_vec At r2, mat_vec At r3))"

text \<open>
  The position of a point under a transform: the first three rows of the product with the
  point in homogeneous coordinates, \<open>np.dot(affine, all_pts)[0:3, :]\<close>.
\<close>

fun transform_point :: "affine \<Rightarrow> point \<Rightarrow> point" where
  "transform_point A (x, y, z) =
     (case mat_vec A (x, y, z, 1) of (x', y', z', w') \<Rightarrow> (x', y', z'))"

fun norm3 :: "point \<Rightarrow> real" where
  "norm3 (x, y, z) = sqrt (x\<^sup>2 + y\<^sup>2 + z\<^sup>2)"

fun minus3 :: "point \<Rightarrow> point \<Rightarrow> point" where
  "minus3 (x, y, z) (x', y', z') = (x - x', y - y', z - z')"

definition identity_affine :: affine where
  "identity_affine = ((1, 0, 0, 0), (0, 1, 0, 0), (0, 0, 1, 0), (0, 0, 0, 1))"

fun translation :: "point \<Rightarrow> affine" where
  "translation (tx, ty, tz) = ((1, 0, 0, tx), (0, 1, 0, ty), (0, 0, 1, tz), (0, 0, 0, 1))"

declare translation.simps [simp del]

fun bottom_row :: "affine \<Rightarrow> row" where
  "bottom_row (r0, r1, r2, r3) = r3"


text \<open>
  A rigid transform: the columns of the 3x3 block are orthonormal (a rotation, possibly
  with a reflection), the last column is any translation, the bottom row is \<open>[0, 0, 0, 1]\<close>.
\<close>

fun is_rigid :: "affine \<Rightarrow> bool" where
  "is_rigid ((a, b, c, t0), (d, e, f, t1), (g, h, i, t2), r3) =
     (a * a + d * d + g * g = 1 \<and> b * b + e * e + h * h = 1 \<and> c * c + f * f + i * i = 1
      \<and> a * b + d * e + g * h = 0 \<and> a * c + d * f + g * i = 0 \<and> b * c + e * f + h * i = 0
      \<and> r3 = (0, 0, 0, 1))"

section \<open>registration.py: compare\_xforms\<close>

text \<open>\<open>np.max\<close> of a one-dimensional array; it raises ValueError on an empty one.\<close>

fun amax :: "real list \<Rightarrow> error + real" where
  "amax [] = Inl ValueError"
| "amax (x # xs) = Inr (fold max xs x)"

text \<open>
  Modelled from the spec: \<open>_calc_norm_affine\<close> of \<open>nipype.algorithms.rapidart\<close> is not
  among the sources; \<open>compare_xforms\<close> only calls it. The docstring of \<open>compare_xforms\<close>
  describes its result as "the maximum overall displacement of the midpoints of the
  faces of a cube, when each transform is applied to the cube", and the spec (4.1, steps
  2 to 4) as: apply both transforms to each reference point, take the Euclidean norm of
  the difference of the two positions, and take the maximum over the points. With
  \<open>use_differences=True\<close> the entry of every affine after the first is this value for
  the affine and its predecessor in the list; the first affine has no predecessor and
  its differences are zero.

  The reference points are set inside that function. The sources do not contain them, so
  they are the parameter \<open>pts\<close> of the model.
\<close>

definition max_displacement :: "point list \<Rightarrow> affine \<Rightarrow> affine \<Rightarrow> error + real" where
  "max_displacement pts prev cur =
     amax (map (\<lambda>p. norm3 (minus3 (transform_point cur p) (transform_point prev p))) pts)"

fun diff_norms :: "point list \<Rightarrow> affine \<Rightarrow> affine list \<Rightarrow> error + real list" where
  "diff_norms pts prev [] = Inr []"
| "diff_norms pts prev (a # as) =
     (case max_displacement pts prev a of
        Inl e \<Rightarrow> Inl e
      | Inr d \<Rightarrow>
          (case diff_norms pts a as of
             Inl e \<Rightarrow> Inl e
           | Inr ds \<Rightarrow> Inr (d # ds)))"

definition calc_norm_affine :: "point list \<Rightarrow> affine list \<Rightarrow> error + real list" where
  "calc_norm_affine pts affines =
     (case affines of
        [] \<Rightarrow> Inr []
      | a # as \<Rightarrow>
          (case amax (map (\<lambda>p. 0) pts) of
             Inl e \<Rightarrow> Inl e
           | Inr d0 \<Rightarrow>
               (case diff_norms pts a as of
                  Inl e \<Rightarrow> Inl e
                | Inr ds \<Rightarrow> Inr (d0 # ds))))"

text \<open>
  \<^verbatim>\<open>
  def compare_xforms(lta_list, norm_threshold=15):
      bbr_affine = load_transform(lta_list[0])
      fallback_affine = load_transform(lta_list[1])
      norm, _ = _calc_norm_affine([fallback_affine, bbr_affine], use_differences=True)
      return norm[1] > norm_threshold
  \<close>
  \<open>load_transform\<close> (niworkflows) reads a transform file; it is the parameter
  \<open>load_transform\<close>, which returns the array or the error it raised. The threshold is
  \<open>None\<close> when the caller leaves it out.

  The type of a loaded array fixes its shape, 4x4, and its entries, finite reals. The code
  checks neither: an array of another shape, or one with \<open>nan\<close> or \<open>inf\<close> entries,
  goes to \<open>_calc_norm_affine\<close> as it is. Such arrays are outside the model, and no
  statement below is about them.
\<close>

definition compare_xforms ::
  "(string \<Rightarrow> error + affine) \<Rightarrow> point list \<Rightarrow> string list \<Rightarrow> real option \<Rightarrow> error + bool" where
  "compare_xforms load_transform pts lta_list norm_threshold =
     (let threshold = (case norm_threshold of None \<Rightarrow> 15 | Some t \<Rightarrow> t)
      in if length lta_list < 1 then Inl IndexError
         else
           (case load_transform (lta_list ! 0) of
              Inl e \<Rightarrow> Inl e
            | Inr bbr_affine \<Rightarrow>
                (if length lta_list < 2 then Inl IndexError
                 else
                   (case load_transform (lta_list ! 1) of
                      Inl e \<Rightarrow> Inl e
                    | Inr fallback_affine \<Rightarrow>
                        (case calc_norm_affine pts [fallback_affine, bbr_affine] of
                           Inl e \<Rightarrow> Inl e
                         | Inr norms \<Rightarrow> Inr (norms ! 1 > threshold))))))"

text \<open>
  The displacement that \<open>compare_xforms\<close> compares with the threshold, as a quantity of
  its own: the largest distance, over the reference points, between the position under
  the refined transform and the position under the baseline transform.
\<close>

definition displacement_mm :: "point list \<Rightarrow> affine \<Rightarrow> affine \<Rightarrow> real" where
  "displacement_mm pts refined baseline =
     Max ((\<lambda>p. norm3 (minus3 (transform_point refined p) (transform_point baseline p))) ` set pts)"

text \<open>
  Concrete inputs for the examples below. The face midpoints of the cube of side 2 are the
  reference points that the spec names (4.1, step 1); the sources do not fix the points
  that the external function uses. \<open>load_example\<close> is a reader over six transform files:
  a translation by \<open>(3, 4, 0)\<close>, the identity, both of them composed with a rigid
  transform (a quarter turn about the z axis and a shift), an array whose 3x3 block
  is singular (it flattens the z axis), and a translation by \<open>(12, 16, 0)\<close>.
\<close>

definition cube_face_midpoints :: "point list" where
  "cube_face_midpoints = [(1, 0, 0), (0, 1, 0), (0, 0, 1), (-1, 0, 0), (0, -1, 0), (0, 0, -1)]"

definition quarter_turn :: affine where
  "quarter_turn = ((0, -1, 0, 5), (1, 0, 0, 6), (0, 0, 1, 7), (0, 0, 0, 1))"

definition flat_affine :: affine where
  "flat_affine = ((1, 0, 0, 0), (0, 1, 0, 0), (0, 0, 0, 0), (0, 0, 0, 1))"

definition load_example :: "string \<Rightarrow> error + affine" where
  "load_example fname =
     (if fname = ''bbr.lta'' then Inr (translation (3, 4, 0))
      else if fname = ''coreg.lta'' then Inr identity_affine
      else if fname = ''turned_bbr.lta'' then Inr (mat_mul quarter_turn (translation (3, 4, 0)))
      else if fname = ''turned_coreg.lta'' then Inr (mat_mul quarter_turn identity_affine)
      else if fname = ''flat.lta'' then Inr flat_affine
      else if fname = ''far.lta'' then Inr (translation (12, 16, 0))
      else Inl LoadError)"

section \<open>registration.py: \_conditional\_downsampling\<close>

text \<open>
  An image as the function reads it: the shape of the array, the affine from voxel indices
  to world coordinates, the zooms (voxel sizes) of the header, and the voxel values. Image
  files live in a file system, a map from paths to images.
\<close>

type_synonym voxels = "int \<times> int \<times> int \<Rightarrow> real"
type_synonym mat3 = "point \<times> point \<times> point"

record image =
  img_shape :: "int \<times> int \<times> int"
  img_affine :: affine
  img_zooms :: point
  img_data :: voxels

type_synonym files = "string \<Rightarrow> image option"

text \<open>\<open>affine[:3, :3]\<close>, \<open>np.diag(s).dot(M)\<close>, \<open>M.dot(v)\<close> and \<open>nb.affines.from_matvec\<close>.\<close>

fun block3 :: "affine \<Rightarrow> mat3" where
  "block3 ((a, b, c, t0), (d, e, f, t1), (g, h, i, t2), r3) = ((a, b, c), (d, e, f), (g, h, i))"

fun scale3 :: "real \<Rightarrow> point \<Rightarrow> point" where
  "scale3 k (x, y, z) = (k * x, k * y, k * z)"

fun diag_dot :: "point \<Rightarrow> mat3 \<Rightarrow> mat3" where
  "diag_dot (s0, s1, s2) (r0, r1, r2) = (scale3 s0 r0, scale3 s1 r1, scale3 s2 r2)"

fun dot3 :: "point \<Rightarrow> point \<Rightarrow> real" where
  "dot3 (a, b, c) (x, y, z) = a * x + b * y + c * z"

fun mat3_vec :: "mat3 \<Rightarrow> point \<Rightarrow> point" where
  "mat3_vec (r0, r1, r2) v = (dot3 r0 v, dot3 r1 v, dot3 r2 v)"

fun from_matvec :: "mat3 \<Rightarrow> point \<Rightarrow> affine" where
  "from_matvec ((a, b, c), (d, e, f), (g, h, i)) (t0, t1, t2) =
     ((a, b, c, t0), (d, e, f, t1), (g, h, i, t2), (0, 0, 0, 1))"

text \<open>The elementwise array operations of the function, on triples.\<close>

fun any_less :: "point \<Rightarrow> real \<Rightarrow> bool" where
  "any_less (z0, z1, z2) th = (z0 < th \<or> z1 < th \<or> z2 < th)"

fun divide_scalar :: "real \<Rightarrow> point \<Rightarrow> point" where
  "divide_scalar th (z0, z1, z2) = (th / z0, th / z1, th / z2)"

fun ceil_divide :: "int \<times> int \<times> int \<Rightarrow> point \<Rightarrow> int \<times> int \<times> int" where
  "ceil_divide (n0, n1, n2) (s0, s1, s2) =
     (\<lceil>real_of_int n0 / s0\<rceil>, \<lceil>real_of_int n1 / s1\<rceil>, \<lceil>real_of_int n2 / s2\<rceil>)"

fun half_extent :: "int \<times> int \<times> int \<Rightarrow> point" where
  "half_extent (n0, n1, n2) =
     (0.5 * real_of_int (n0 - 1), 0.5 * real_of_int (n1 - 1), 0.5 * real_of_int (n2 - 1))"

fun any_negative :: "int \<times> int \<times> int \<Rightarrow> bool" where
  "any_negative (n0, n1, n2) = (n0 < 0 \<or> n1 < 0 \<or> n2 < 0)"

text \<open>
  \<open>nb.Nifti1Image(array, affine)\<close>, without a header: the header is made from the array
  and the affine alone, and the voxel sizes of a grid given by an affine are the lengths
  of the columns of its 3x3 block, the world-space length of one step along each voxel
  axis.
\<close>

fun voxel_sizes :: "affine \<Rightarrow> point" where
  "voxel_sizes ((a, b, c, t0), (d, e, f, t1), (g, h, i, t2), r3) =
     (sqrt (a\<^sup>2 + d\<^sup>2 + g\<^sup>2), sqrt (b\<^sup>2 + e\<^sup>2 + h\<^sup>2), sqrt (c\<^sup>2 + f\<^sup>2 + i\<^sup>2))"

definition Nifti1Image :: "int \<times> int \<times> int \<Rightarrow> voxels \<Rightarrow> affine \<Rightarrow> image" where
  "Nifti1Image shape array affine =
     \<lparr>img_shape = shape, img_affine = affine, img_zooms = voxel_sizes affine, img_data = array\<rparr>"

text \<open>
  Modelled from the spec: \<open>nt.Affine(reference=newref).apply(img)\<close> of nitransforms is not
  among the sources. The spec (4.2) has it resample the image onto the new grid, with a
  pluggable resampler: the result has the shape, affine and header of the reference, and
  the values that the resampler \<open>resample\<close>, a parameter, computes from the reference
  grid and the moving image.
\<close>

definition apply_to_reference :: "(image \<Rightarrow> image \<Rightarrow> voxels) \<Rightarrow> image \<Rightarrow> image \<Rightarrow> image" where
  "apply_to_reference resample reference moving =
     reference\<lparr>img_data := resample reference moving\<rparr>"

text \<open>
  \<^verbatim>\<open>
  def _conditional_downsampling(in_file, in_mask, zoom_th=4.0):
      img = nb.load(in_file)
      zooms = np.array(img.header.get_zooms()[:3])
      if not np.any(zooms < zoom_th):
          return in_file, in_mask
      out_file = Path('desc-resampled_input.nii.gz').absolute()
      out_mask = Path('desc-resampled_mask.nii.gz').absolute()
      shape = np.array(img.shape[:3])
      scaling = zoom_th / zooms
      newrot = np.diag(scaling).dot(img.affine[:3, :3])
      newshape = np.ceil(shape / scaling).astype(int)
      old_center = img.affine.dot(np.hstack((0.5 * (shape - 1), 1.0)))[:3]
      offset = old_center - newrot.dot((newshape - 1) * 0.5)
      newaffine = nb.affines.from_matvec(newrot, offset)
      newref = nb.Nifti1Image(np.zeros(newshape, dtype=np.uint8), newaffine)
      nt.Affine(reference=newref).apply(img).to_filename(out_file)
      mask = nb.load(in_mask)
      mask.set_data_dtype(float)
      mdata = gaussian_filter(mask.get_fdata(dtype=float), scaling)
      floatmask = nb.Nifti1Image(mdata, mask.affine, mask.header)
      newmask = nt.Affine(reference=newref).apply(floatmask)
      hdr = newmask.header.copy()
      hdr.set_data_dtype(np.uint8)
      newmaskdata = (newmask.get_fdata(dtype=float) > 0.5).astype(np.uint8)
      nb.Nifti1Image(newmaskdata, newmask.affine, hdr).to_filename(out_mask)
      return str(out_file), str(out_mask)
  \<close>
  The model passes the file system through and returns it with the result, so that a file
  written before a failure stays written. \<open>nb.load\<close> fails with LoadError on a path
  that holds no image, \<open>np.zeros\<close> with ValueError on a negative dimension. The
  resampler, the Gaussian filter and the working directory are parameters. Arithmetic is
  over the reals, where division by zero gives 0 and not the \<open>inf\<close> of the array
  library: the model follows the code for zooms and thresholds other than 0.
\<close>

definition conditional_downsampling ::
  "(image \<Rightarrow> image \<Rightarrow> voxels) \<Rightarrow> (voxels \<Rightarrow> point \<Rightarrow> voxels) \<Rightarrow> string \<Rightarrow>
   files \<Rightarrow> string \<Rightarrow> string \<Rightarrow> real \<Rightarrow> (error + string \<times> string) \<times> files" where
  "conditional_downsampling resample gaussian_filter cwd fs in_file in_mask zoom_th =
     (case fs in_file of
        None \<Rightarrow> (Inl LoadError, fs)
      | Some img \<Rightarrow>
          (let zooms = img_zooms img
           in if \<not> any_less zooms zoom_th then (Inr (in_file, in_mask), fs)
              else
                (let out_file = cwd @ ''/desc-resampled_input.nii.gz'';
                     out_mask = cwd @ ''/desc-resampled_mask.nii.gz'';
                     shape = img_shape img;
                     scaling = divide_scalar zoom_th zooms;
                     newrot = diag_dot scaling (block3 (img_affine img));
                     newshape = ceil_divide shape scaling;
                     old_center = transform_point (img_affine img) (half_extent shape);
                     offset = minus3 old_center (mat3_vec newrot (half_extent newshape));
                     newaffine = from_matvec newrot offset
                 in if any_negative newshape then (Inl ValueError, fs)
                    else
                      (let newref = Nifti1Image newshape (\<lambda>v. 0) newaffine;
                           fs1 = fs(out_file \<mapsto> apply_to_reference resample newref img)
                       in case fs1 in_mask of
                            None \<Rightarrow> (Inl LoadError, fs1)
                          | Some mask_img \<Rightarrow>
                              (let mdata = gaussian_filter (img_data mask_img) scaling;
                                   floatmask = mask_img\<lparr>img_data := mdata\<rparr>;
                                   newmask = apply_to_reference resample newref floatmask;
                                   newmaskdata = (\<lambda>v. if img_data newmask v > 0.5 then 1 else 0);
                                   fs2 = fs1(out_mask \<mapsto> newmask\<lparr>img_data := newmaskdata\<rparr>)
                               in (Inr (out_file, out_mask), fs2))))))"

text \<open>Physical voxel sizes are positive.\<close>

fun all_positive :: "point \<Rightarrow> bool" where
  "all_positive (z0, z1, z2) = (0 < z0 \<and> 0 < z1 \<and> 0 < z2)"

text \<open>
  Concrete inputs for the examples below: an 8x8x8 image with voxels of 1 x 2 x 4 mm whose
  first two voxel axes are swapped against the world axes (the first voxel axis runs along
  world y, the second along world x), used as reference and as mask; a resampler that
  keeps the values of the moving image, and a filter that does not smooth.
\<close>

definition permuted_t1w :: image where
  "permuted_t1w =
     \<lparr>img_shape = (8, 8, 8),
      img_affine = ((0, 2, 0, 0), (1, 0, 0, 0), (0, 0, 4, 0), (0, 0, 0, 1)),
      img_zooms = (1, 2, 4),
      img_data = (\<lambda>v. 1)\<rparr>"

definition example_files :: files where
  "example_files =
     [''/in/t1w.nii.gz'' \<mapsto> permuted_t1w, ''/in/wm.nii.gz'' \<mapsto> permuted_t1w]"

definition keep_values :: "image \<Rightarrow> image \<Rightarrow> voxels" where
  "keep_values reference moving = img_data moving"

definition no_smoothing :: "voxels \<Rightarrow> point \<Rightarrow> voxels" where
  "no_smoothing array sigma = array"

text \<open>The function run on the example, and run again on its own output.\<close>

definition first_run :: "(error + string \<times> string) \<times> files" where
  "first_run = conditional_downsampling keep_values no_smoothing ''/work'' example_files
     ''/in/t1w.nii.gz'' ''/in/wm.nii.gz'' 4"

definition second_run :: "(error + string \<times> string) \<times> files" where
  "second_run = conditional_downsampling keep_values no_smoothing ''/work'' (snd first_run)
     ''/work/desc-resampled_input.nii.gz'' ''/work/desc-resampled_mask.nii.gz'' 4"

section \<open>registration.py: the two registration workflows\<close>




















section \<open>Properties of format\_agg\_rois\<close>

text \<open>
  C10. For every non-empty list of file names, \<open>format_agg_rois\<close> raises (an
  AttributeError, from \<open>.strip()\<close> on the integer \<open>len(rois) - 1\<close>) and so never returns
  the documented triple of first image, operand files and operation string.
\<close>

theorem format_agg_rois_raises:
  assumes "rois \<noteq> []"
  shows "format_agg_rois rois = Inl AttributeError \<and> (\<forall>r. format_agg_rois rois \<noteq> Inr r)"
  using assms by (simp add: format_agg_rois_def)

theorem format_agg_rois_raises_witness:
  "[''roi1.nii.gz'', ''roi2.nii.gz''] \<noteq> []
   \<and> format_agg_rois [''roi1.nii.gz'', ''roi2.nii.gz''] = Inl AttributeError
   \<and> (\<forall>r. format_agg_rois [''roi1.nii.gz'', ''roi2.nii.gz''] \<noteq> Inr r)"
  using format_agg_rois_raises [of "[''roi1.nii.gz'', ''roi2.nii.gz'']"] by simp

section \<open>Properties of compare\_xforms\<close>

lemma amax_map:
  assumes "pts \<noteq> []"
  shows "amax (map f pts) = Inr (Max (f ` set pts))"
proof -
  obtain p ps where c: "pts = p # ps" using assms by (cases pts) auto
  have "fold max (map f ps) (f p) = Max (set (f p # map f ps))"
    by (simp only: Max.set_eq_fold)
  then show ?thesis using c by simp
qed

lemma calc_norm_affine_pair:
  "pts \<noteq> [] \<Longrightarrow> calc_norm_affine pts [fb, bbr] = Inr [0, displacement_mm pts bbr fb]"
  by (simp add: calc_norm_affine_def max_displacement_def displacement_mm_def amax_map
      image_constant_conv)

lemma calc_norm_affine_empty: "calc_norm_affine [] [fb, bbr] = Inl ValueError"
  by (simp add: calc_norm_affine_def)

lemma compare_xforms_value:
  assumes "pts \<noteq> []" "2 \<le> length lta_list"
    and "load_transform (lta_list ! 0) = Inr bbr" "load_transform (lta_list ! 1) = Inr fb"
  shows "compare_xforms load_transform pts lta_list thr =
     Inr (displacement_mm pts bbr fb > (case thr of None \<Rightarrow> 15 | Some t \<Rightarrow> t))"
  using assms by (auto simp add: compare_xforms_def calc_norm_affine_pair)

lemma sqrt_25: "sqrt 25 = 5"
  by (rule real_sqrt_unique) simp_all

lemma norm3_minus3_commute: "norm3 (minus3 p q) = norm3 (minus3 q p)"
  by (cases p; cases q) (simp add: power2_commute)

lemma transform_identity: "transform_point identity_affine p = p"
  by (cases p) (simp add: identity_affine_def)

lemma translation_shift: "minus3 (transform_point (translation t) p) p = t"
  by (cases p; cases t) (simp add: translation.simps)

lemma displacement_translation:
  assumes "pts \<noteq> []"
  shows "displacement_mm pts (translation t) identity_affine = norm3 t"
  using assms
  by (simp add: displacement_mm_def transform_identity translation_shift image_constant_conv)

lemma mat_vec_mul: "mat_vec (mat_mul R A) v = mat_vec R (mat_vec A v)"
  by (cases R rule: prod_cases4; cases A rule: prod_cases4; cases v rule: prod_cases4)
     (auto simp: algebra_simps)

lemma transform_mat_mul:
  assumes "bottom_row A = (0, 0, 0, 1)"
  shows "transform_point (mat_mul R A) p = transform_point R (transform_point A p)"
proof -
  obtain x y z where p: "p = (x, y, z)" by (cases p)
  obtain a0 a1 a2 a3 where A: "A = (a0, a1, a2, a3)" by (cases A rule: prod_cases4)
  have "mat_vec A (x, y, z, 1) =
      (row_dot a0 (x, y, z, 1), row_dot a1 (x, y, z, 1), row_dot a2 (x, y, z, 1), 1)"
    using assms A by simp
  then show ?thesis
    unfolding p by (simp add: mat_vec_mul A)
qed

lemma ortho_sum_squares:
  fixes a b c d e f g h i u v w :: real
  assumes "a * a + d * d + g * g = 1" "b * b + e * e + h * h = 1" "c * c + f * f + i * i = 1"
    "a * b + d * e + g * h = 0" "a * c + d * f + g * i = 0" "b * c + e * f + h * i = 0"
  shows "(a * u + b * v + c * w)\<^sup>2 + (d * u + e * v + f * w)\<^sup>2 + (g * u + h * v + i * w)\<^sup>2
       = u\<^sup>2 + v\<^sup>2 + w\<^sup>2"
proof -
  have "(a * u + b * v + c * w)\<^sup>2 + (d * u + e * v + f * w)\<^sup>2 + (g * u + h * v + i * w)\<^sup>2
      = u\<^sup>2 * (a * a + d * d + g * g) + v\<^sup>2 * (b * b + e * e + h * h)
        + w\<^sup>2 * (c * c + f * f + i * i) + 2 * u * v * (a * b + d * e + g * h)
        + 2 * u * w * (a * c + d * f + g * i) + 2 * v * w * (b * c + e * f + h * i)"
    by (simp add: power2_eq_square algebra_simps)
  also have "\<dots> = u\<^sup>2 + v\<^sup>2 + w\<^sup>2"
    by (simp add: assms)
  finally show ?thesis .
qed

lemma rigid_linear:
  assumes "is_rigid R"
  shows "norm3 (minus3 (transform_point R q) (transform_point R q')) = norm3 (minus3 q q')"
proof -
  obtain a b c t0 d e f t1 g h i t2 r3 where
    R: "R = ((a, b, c, t0), (d, e, f, t1), (g, h, i, t2), r3)"
    by (metis prod_cases4)
  obtain x y z where q: "q = (x, y, z)" by (cases q)
  obtain x' y' z' where q': "q' = (x', y', z')" by (cases q')
  have o: "a * a + d * d + g * g = 1" "b * b + e * e + h * h = 1" "c * c + f * f + i * i = 1"
    "a * b + d * e + g * h = 0" "a * c + d * f + g * i = 0" "b * c + e * f + h * i = 0"
    using assms by (simp_all add: R)
  have "(a * x + b * y + c * z + t0 * 1 - (a * x' + b * y' + c * z' + t0 * 1))\<^sup>2
      + (d * x + e * y + f * z + t1 * 1 - (d * x' + e * y' + f * z' + t1 * 1))\<^sup>2
      + (g * x + h * y + i * z + t2 * 1 - (g * x' + h * y' + i * z' + t2 * 1))\<^sup>2
      = (a * (x - x') + b * (y - y') + c * (z - z'))\<^sup>2
      + (d * (x - x') + e * (y - y') + f * (z - z'))\<^sup>2
      + (g * (x - x') + h * (y - y') + i * (z - z'))\<^sup>2"
    by (simp add: algebra_simps)
  also have "\<dots> = (x - x')\<^sup>2 + (y - y')\<^sup>2 + (z - z')\<^sup>2"
    by (rule ortho_sum_squares [OF o])
  finally show ?thesis
    by (simp add: R q q')
qed

lemma displacement_rigid:
  assumes "is_rigid R" "bottom_row A = (0, 0, 0, 1)" "bottom_row B = (0, 0, 0, 1)"
  shows "displacement_mm pts (mat_mul R A) (mat_mul R B) = displacement_mm pts A B"
  by (simp add: displacement_mm_def transform_mat_mul assms(2,3) rigid_linear [OF assms(1)])

lemma load_example_simps:
  "load_example ''bbr.lta'' = Inr (translation (3, 4, 0))"
  "load_example ''coreg.lta'' = Inr identity_affine"
  "load_example ''turned_bbr.lta'' = Inr (mat_mul quarter_turn (translation (3, 4, 0)))"
  "load_example ''turned_coreg.lta'' = Inr (mat_mul quarter_turn identity_affine)"
  "load_example ''flat.lta'' = Inr flat_affine"
  "load_example ''far.lta'' = Inr (translation (12, 16, 0))"
  by (simp_all add: load_example_def)

lemma example_displacement:
  "displacement_mm cube_face_midpoints (translation (3, 4, 0)) identity_affine = 5"
  by (simp add: displacement_translation cube_face_midpoints_def sqrt_25)

text \<open>
  C1. Whenever both transforms load, the result of \<open>compare_xforms\<close> is the strict
  comparison of the displacement with the threshold: False when the threshold is above
  the displacement, True when it is below, False when they are equal. A call without a
  threshold behaves as a call with the threshold 15.
\<close>

theorem compare_xforms_threshold:
  assumes "pts \<noteq> []" and "2 \<le> length lta_list"
    and "load_transform (lta_list ! 0) = Inr refined"
    and "load_transform (lta_list ! 1) = Inr baseline"
  shows "compare_xforms load_transform pts lta_list (Some thr) =
           Inr (displacement_mm pts refined baseline > thr)
       \<and> (displacement_mm pts refined baseline < thr \<longrightarrow>
            compare_xforms load_transform pts lta_list (Some thr) = Inr False)
       \<and> (thr < displacement_mm pts refined baseline \<longrightarrow>
            compare_xforms load_transform pts lta_list (Some thr) = Inr True)
       \<and> (thr = displacement_mm pts refined baseline \<longrightarrow>
            compare_xforms load_transform pts lta_list (Some thr) = Inr False)
       \<and> compare_xforms load_transform pts lta_list None =
           compare_xforms load_transform pts lta_list (Some 15)"
  by (simp add: compare_xforms_value [OF assms])

theorem compare_xforms_threshold_witness:
  "cube_face_midpoints \<noteq> [] \<and> 2 \<le> length [''bbr.lta'', ''coreg.lta'']
   \<and> load_example ([''bbr.lta'', ''coreg.lta''] ! 0) = Inr (translation (3, 4, 0))
   \<and> load_example ([''bbr.lta'', ''coreg.lta''] ! 1) = Inr identity_affine
   \<and> compare_xforms load_example cube_face_midpoints [''bbr.lta'', ''coreg.lta''] (Some 4)
       = Inr True
   \<and> compare_xforms load_example cube_face_midpoints [''bbr.lta'', ''coreg.lta''] (Some 5)
       = Inr False
   \<and> compare_xforms load_example cube_face_midpoints [''bbr.lta'', ''coreg.lta''] (Some 6)
       = Inr False
   \<and> compare_xforms load_example cube_face_midpoints [''bbr.lta'', ''coreg.lta''] None
       = Inr False"
proof -
  have h: "cube_face_midpoints \<noteq> []" "2 \<le> length [''bbr.lta'', ''coreg.lta'']"
    "load_example ([''bbr.lta'', ''coreg.lta''] ! 0) = Inr (translation (3, 4, 0))"
    "load_example ([''bbr.lta'', ''coreg.lta''] ! 1) = Inr identity_affine"
    by (simp_all add: cube_face_midpoints_def load_example_simps)
  show ?thesis
    using h compare_xforms_threshold [OF h, of 4] compare_xforms_threshold [OF h, of 5]
      compare_xforms_threshold [OF h, of 6] compare_xforms_threshold [OF h, of 15]
    by (simp add: example_displacement)
qed

text \<open>
  C3. With the identity as baseline and a pure translation by \<open>t = (tx, ty, tz)\<close> as
  refined transform, the displacement is the Euclidean norm of \<open>t\<close>, the square root of
  \<open>tx\<^sup>2 + ty\<^sup>2 + tz\<^sup>2\<close>, for every non-empty set of reference points, and
  \<open>compare_xforms\<close> compares this norm with the threshold. For \<open>t = 0\<close>, the identity
  pair, the displacement is 0 and the result is False for every positive threshold.
\<close>

theorem translation_displacement:
  assumes "pts \<noteq> []" and "2 \<le> length lta_list"
    and "load_transform (lta_list ! 0) = Inr (translation (tx, ty, tz))"
    and "load_transform (lta_list ! 1) = Inr identity_affine"
  shows "displacement_mm pts (translation (tx, ty, tz)) identity_affine
           = sqrt (tx\<^sup>2 + ty\<^sup>2 + tz\<^sup>2)
       \<and> compare_xforms load_transform pts lta_list (Some thr)
           = Inr (sqrt (tx\<^sup>2 + ty\<^sup>2 + tz\<^sup>2) > thr)
       \<and> (tx = 0 \<and> ty = 0 \<and> tz = 0 \<longrightarrow>
            translation (tx, ty, tz) = identity_affine
            \<and> displacement_mm pts identity_affine identity_affine = 0
            \<and> (0 < thr \<longrightarrow> compare_xforms load_transform pts lta_list (Some thr) = Inr False))"
proof -
  have d: "displacement_mm pts (translation (tx, ty, tz)) identity_affine
      = sqrt (tx\<^sup>2 + ty\<^sup>2 + tz\<^sup>2)"
    by (simp add: displacement_translation [OF assms(1)])
  have c: "compare_xforms load_transform pts lta_list (Some thr)
      = Inr (sqrt (tx\<^sup>2 + ty\<^sup>2 + tz\<^sup>2) > thr)"
    by (simp add: compare_xforms_value [OF assms] d)
  have "translation (0, 0, 0) = identity_affine"
    by (simp add: identity_affine_def translation.simps)
  then show ?thesis
    using d c by auto
qed

theorem translation_displacement_witness:
  "cube_face_midpoints \<noteq> [] \<and> 2 \<le> length [''bbr.lta'', ''coreg.lta'']
   \<and> load_example ([''bbr.lta'', ''coreg.lta''] ! 0) = Inr (translation (3, 4, 0))
   \<and> load_example ([''bbr.lta'', ''coreg.lta''] ! 1) = Inr identity_affine
   \<and> displacement_mm cube_face_midpoints (translation (3, 4, 0)) identity_affine = 5
   \<and> compare_xforms load_example cube_face_midpoints [''bbr.lta'', ''coreg.lta''] (Some 4)
       = Inr True
   \<and> compare_xforms load_example cube_face_midpoints [''bbr.lta'', ''coreg.lta''] (Some 15)
       = Inr False
   \<and> 2 \<le> length [''coreg.lta'', ''coreg.lta'']
   \<and> load_example ([''coreg.lta'', ''coreg.lta''] ! 0) = Inr (translation (0, 0, 0))
   \<and> load_example ([''coreg.lta'', ''coreg.lta''] ! 1) = Inr identity_affine
   \<and> (0::real) < 15
   \<and> displacement_mm cube_face_midpoints identity_affine identity_affine = 0
   \<and> compare_xforms load_example cube_face_midpoints [''coreg.lta'', ''coreg.lta''] (Some 15)
       = Inr False"
proof -
  have p: "cube_face_midpoints \<noteq> []"
    by (simp add: cube_face_midpoints_def)
  have h: "2 \<le> length [''bbr.lta'', ''coreg.lta'']"
    "load_example ([''bbr.lta'', ''coreg.lta''] ! 0) = Inr (translation (3, 4, 0))"
    "load_example ([''bbr.lta'', ''coreg.lta''] ! 1) = Inr identity_affine"
    by (simp_all add: load_example_simps)
  have i: "2 \<le> length [''coreg.lta'', ''coreg.lta'']"
    "load_example ([''coreg.lta'', ''coreg.lta''] ! 0) = Inr (translation (0, 0, 0))"
    "load_example ([''coreg.lta'', ''coreg.lta''] ! 1) = Inr identity_affine"
    by (simp_all add: load_example_simps identity_affine_def translation.simps)
  show ?thesis
    using p h i translation_displacement [OF p h, of 4] translation_displacement [OF p h, of 15]
      translation_displacement [OF p i, of 15]
    by (simp add: sqrt_25)
qed

text \<open>
  C4. Composing both transforms on the left with the same rigid transform \<open>R\<close> changes
  neither the displacement nor the result of \<open>compare_xforms\<close>. The two transforms are
  affine: their bottom row is \<open>[0, 0, 0, 1]\<close>.
\<close>

theorem rigid_congruence:
  assumes "is_rigid R"
    and "bottom_row refined = (0, 0, 0, 1)" and "bottom_row baseline = (0, 0, 0, 1)"
    and "pts \<noteq> []" and "2 \<le> length lta_list" and "2 \<le> length lta_list'"
    and "load_transform (lta_list ! 0) = Inr refined"
    and "load_transform (lta_list ! 1) = Inr baseline"
    and "load_transform (lta_list' ! 0) = Inr (mat_mul R refined)"
    and "load_transform (lta_list' ! 1) = Inr (mat_mul R baseline)"
  shows "displacement_mm pts (mat_mul R refined) (mat_mul R baseline) =
           displacement_mm pts refined baseline
       \<and> compare_xforms load_transform pts lta_list' thr =
           compare_xforms load_transform pts lta_list thr"
  by (simp add: displacement_rigid [OF assms(1-3)]
      compare_xforms_value [OF assms(4,5,7,8)] compare_xforms_value [OF assms(4,6,9,10)])

theorem rigid_congruence_witness:
  "is_rigid quarter_turn
   \<and> bottom_row (translation (3, 4, 0)) = (0, 0, 0, 1) \<and> bottom_row identity_affine = (0, 0, 0, 1)
   \<and> cube_face_midpoints \<noteq> []
   \<and> 2 \<le> length [''bbr.lta'', ''coreg.lta'']
   \<and> 2 \<le> length [''turned_bbr.lta'', ''turned_coreg.lta'']
   \<and> load_example ([''bbr.lta'', ''coreg.lta''] ! 0) = Inr (translation (3, 4, 0))
   \<and> load_example ([''bbr.lta'', ''coreg.lta''] ! 1) = Inr identity_affine
   \<and> load_example ([''turned_bbr.lta'', ''turned_coreg.lta''] ! 0)
       = Inr (mat_mul quarter_turn (translation (3, 4, 0)))
   \<and> load_example ([''turned_bbr.lta'', ''turned_coreg.lta''] ! 1)
       = Inr (mat_mul quarter_turn identity_affine)
   \<and> displacement_mm cube_face_midpoints (mat_mul quarter_turn (translation (3, 4, 0)))
         (mat_mul quarter_turn identity_affine) = 5
   \<and> compare_xforms load_example cube_face_midpoints [''turned_bbr.lta'', ''turned_coreg.lta'']
         (Some 4)
       = compare_xforms load_example cube_face_midpoints [''bbr.lta'', ''coreg.lta''] (Some 4)"
proof -
  have h: "is_rigid quarter_turn"
    "bottom_row (translation (3, 4, 0)) = (0, 0, 0, 1)" "bottom_row identity_affine = (0, 0, 0, 1)"
    "cube_face_midpoints \<noteq> []"
    "2 \<le> length [''bbr.lta'', ''coreg.lta'']"
    "2 \<le> length [''turned_bbr.lta'', ''turned_coreg.lta'']"
    "load_example ([''bbr.lta'', ''coreg.lta''] ! 0) = Inr (translation (3, 4, 0))"
    "load_example ([''bbr.lta'', ''coreg.lta''] ! 1) = Inr identity_affine"
    "load_example ([''turned_bbr.lta'', ''turned_coreg.lta''] ! 0)
       = Inr (mat_mul quarter_turn (translation (3, 4, 0)))"
    "load_example ([''turned_bbr.lta'', ''turned_coreg.lta''] ! 1)
       = Inr (mat_mul quarter_turn identity_affine)"
    by (simp_all add: quarter_turn_def identity_affine_def cube_face_midpoints_def
        load_example_def translation.simps)
  show ?thesis
    using h rigid_congruence [OF h, of "Some 4"] example_displacement by simp
qed

text \<open>
  C9. Swapping the two entries of \<open>lta_list\<close> changes neither the displacement nor the
  result of \<open>compare_xforms\<close>, whatever the threshold.
\<close>

theorem compare_xforms_symmetric:
  assumes "load_transform f0 = Inr a" and "load_transform f1 = Inr b"
  shows "displacement_mm pts a b = displacement_mm pts b a
       \<and> compare_xforms load_transform pts [f0, f1] thr =
           compare_xforms load_transform pts [f1, f0] thr"
proof -
  have d: "displacement_mm pts a b = displacement_mm pts b a"
    by (simp add: displacement_mm_def norm3_minus3_commute)
  show ?thesis
  proof (cases "pts = []")
    case True
    then show ?thesis
      using assms d by (simp add: compare_xforms_def calc_norm_affine_empty)
  next
    case False
    have "compare_xforms load_transform pts [f0, f1] thr =
        Inr (displacement_mm pts a b > (case thr of None \<Rightarrow> 15 | Some t \<Rightarrow> t))"
      using False assms by (intro compare_xforms_value) simp_all
    moreover have "compare_xforms load_transform pts [f1, f0] thr =
        Inr (displacement_mm pts b a > (case thr of None \<Rightarrow> 15 | Some t \<Rightarrow> t))"
      using False assms by (intro compare_xforms_value) simp_all
    ultimately show ?thesis using d by simp
  qed
qed

theorem compare_xforms_symmetric_witness:
  "load_example ''bbr.lta'' = Inr (translation (3, 4, 0))
   \<and> load_example ''coreg.lta'' = Inr identity_affine
   \<and> displacement_mm cube_face_midpoints identity_affine (translation (3, 4, 0)) = 5
   \<and> compare_xforms load_example cube_face_midpoints [''bbr.lta'', ''coreg.lta''] None =
       compare_xforms load_example cube_face_midpoints [''coreg.lta'', ''bbr.lta''] None"
proof -
  have h: "load_example ''bbr.lta'' = Inr (translation (3, 4, 0))"
    "load_example ''coreg.lta'' = Inr identity_affine"
    by (simp_all add: load_example_simps)
  show ?thesis
    using h compare_xforms_symmetric [OF h, of cube_face_midpoints None] example_displacement
    by simp
qed




section \<open>Properties of \_conditional\_downsampling\<close>

text \<open>
  When no zoom is below the threshold, the function returns its two arguments and writes
  nothing.
\<close>

lemma downsample_noop:
  assumes "fs in_file = Some img" "\<not> any_less (img_zooms img) zoom_th"
  shows "conditional_downsampling resample gaussian_filter cwd fs in_file in_mask zoom_th
     = (Inr (in_file, in_mask), fs)"
  using assms by (simp add: conditional_downsampling_def)

lemma ceiling_quotient_nonneg:
  fixes n :: int and s :: real
  assumes "0 \<le> n" "0 < s"
  shows "\<not> \<lceil>real_of_int n / s\<rceil> < 0"
proof -
  have "0 \<le> real_of_int n / s" using assms by simp
  then have "0 \<le> \<lceil>real_of_int n / s\<rceil>" by linarith
  then show ?thesis by simp
qed

lemma ceil_divide_nonneg:
  assumes "\<not> any_negative shape" "all_positive scaling"
  shows "\<not> any_negative (ceil_divide shape scaling)"
proof -
  obtain n0 n1 n2 where s: "shape = (n0, n1, n2)" by (cases shape)
  obtain s0 s1 s2 where c: "scaling = (s0, s1, s2)" by (cases scaling)
  have "0 \<le> n0" "0 \<le> n1" "0 \<le> n2" "0 < s0" "0 < s1" "0 < s2"
    using assms by (simp_all add: s c)
  then have "\<not> \<lceil>real_of_int n0 / s0\<rceil> < 0" "\<not> \<lceil>real_of_int n1 / s1\<rceil> < 0"
    "\<not> \<lceil>real_of_int n2 / s2\<rceil> < 0"
    by (simp_all only: ceiling_quotient_nonneg not_False_eq_True)
  then show ?thesis
    unfolding s c by (simp only: ceil_divide.simps any_negative.simps) blast
qed

lemma divide_scalar_positive:
  "0 < th \<Longrightarrow> all_positive zooms \<Longrightarrow> all_positive (divide_scalar th zooms)"
  by (cases zooms) simp

lemma out_paths_differ: "cwd @ ''/desc-resampled_input.nii.gz'' \<noteq> cwd @ ''/desc-resampled_mask.nii.gz''"
  by simp

text \<open>
  C7. When the function resamples an image with positive voxel sizes against a positive
  threshold, it returns the two output paths; the image and the mask written there have the
  same shape and the same affine, and every voxel of the mask is 0 or 1.
\<close>

theorem downsample_common_grid_binary_mask:
  assumes "fs in_file = Some img" and "fs in_mask = Some mask_img"
    and "any_less (img_zooms img) zoom_th"
    and "all_positive (img_zooms img)" and "0 < zoom_th" and "\<not> any_negative (img_shape img)"
  shows "\<exists>fs' ref m.
      conditional_downsampling resample gaussian_filter cwd fs in_file in_mask zoom_th
        = (Inr (cwd @ ''/desc-resampled_input.nii.gz'', cwd @ ''/desc-resampled_mask.nii.gz''), fs')
      \<and> fs' (cwd @ ''/desc-resampled_input.nii.gz'') = Some ref
      \<and> fs' (cwd @ ''/desc-resampled_mask.nii.gz'') = Some m
      \<and> img_shape ref = img_shape m \<and> img_affine ref = img_affine m
      \<and> (\<forall>v. img_data m v = 0 \<or> img_data m v = 1)"
proof -
  have n: "\<not> any_negative (ceil_divide (img_shape img) (divide_scalar zoom_th (img_zooms img)))"
    by (rule ceil_divide_nonneg [OF assms(6) divide_scalar_positive [OF assms(5,4)]])
  show ?thesis
    using assms(1,2,3) n
    by (auto simp add: conditional_downsampling_def Let_def apply_to_reference_def Nifti1Image_def)
qed

theorem downsample_common_grid_binary_mask_witness:
  "example_files ''/in/t1w.nii.gz'' = Some permuted_t1w
   \<and> example_files ''/in/wm.nii.gz'' = Some permuted_t1w
   \<and> any_less (img_zooms permuted_t1w) 4
   \<and> all_positive (img_zooms permuted_t1w) \<and> (0::real) < 4
   \<and> \<not> any_negative (img_shape permuted_t1w)
   \<and> (\<exists>fs' ref m.
        conditional_downsampling keep_values no_smoothing ''/work'' example_files
          ''/in/t1w.nii.gz'' ''/in/wm.nii.gz'' 4
          = (Inr (''/work'' @ ''/desc-resampled_input.nii.gz'',
                  ''/work'' @ ''/desc-resampled_mask.nii.gz''), fs')
        \<and> fs' (''/work'' @ ''/desc-resampled_input.nii.gz'') = Some ref
        \<and> fs' (''/work'' @ ''/desc-resampled_mask.nii.gz'') = Some m
        \<and> img_shape ref = img_shape m \<and> img_affine ref = img_affine m
        \<and> (\<forall>v. img_data m v = 0 \<or> img_data m v = 1))"
proof -
  have h: "example_files ''/in/t1w.nii.gz'' = Some permuted_t1w"
    "example_files ''/in/wm.nii.gz'' = Some permuted_t1w"
    "any_less (img_zooms permuted_t1w) 4"
    "all_positive (img_zooms permuted_t1w)" "(0::real) < 4"
    "\<not> any_negative (img_shape permuted_t1w)"
    by (simp_all add: example_files_def permuted_t1w_def)
  from h downsample_common_grid_binary_mask
      [where fs = example_files and in_file = "''/in/t1w.nii.gz''"
        and in_mask = "''/in/wm.nii.gz''" and zoom_th = 4 and resample = keep_values
        and gaussian_filter = no_smoothing and cwd = "''/work''", OF h]
  show ?thesis by blast
qed

text \<open>
  For an image whose voxel axes are the world axes (a diagonal 3x3 block that agrees with
  the zooms), the output has the threshold as voxel size on every axis, and a second run
  on the output returns it unchanged.
\<close>

lemma axis_aligned_new_zooms:
  assumes "0 < th" "a0 \<noteq> 0" "a1 \<noteq> 0" "a2 \<noteq> 0"
  shows "voxel_sizes (from_matvec
      (diag_dot (divide_scalar th (\<bar>a0\<bar>, \<bar>a1\<bar>, \<bar>a2\<bar>)) ((a0, 0, 0), (0, a1, 0), (0, 0, a2))) offset)
    = (th, th, th)"
proof -
  have "\<And>a::real. a \<noteq> 0 \<Longrightarrow> \<bar>th / \<bar>a\<bar> * a\<bar> = th"
    using assms(1) by (simp add: abs_mult)
  then show ?thesis
    using assms by (cases offset) simp
qed

lemma downsample_axis_aligned_idempotent:
  assumes "fs in_file = Some img" and "fs in_mask = Some mask_img"
    and "any_less (img_zooms img) zoom_th" and "0 < zoom_th"
    and "\<not> any_negative (img_shape img)"
    and "block3 (img_affine img) = ((a0, 0, 0), (0, a1, 0), (0, 0, a2))"
    and "img_zooms img = (\<bar>a0\<bar>, \<bar>a1\<bar>, \<bar>a2\<bar>)"
    and "a0 \<noteq> 0" "a1 \<noteq> 0" "a2 \<noteq> 0"
    and "first = conditional_downsampling resample gaussian_filter cwd fs in_file in_mask zoom_th"
    and "out_file = cwd @ ''/desc-resampled_input.nii.gz''"
    and "out_mask = cwd @ ''/desc-resampled_mask.nii.gz''"
  shows "fst first = Inr (out_file, out_mask)
    \<and> map_option img_zooms (snd first out_file) = Some (zoom_th, zoom_th, zoom_th)
    \<and> conditional_downsampling resample gaussian_filter cwd (snd first) out_file out_mask zoom_th
        = (Inr (out_file, out_mask), snd first)"
proof -
  have p: "all_positive (img_zooms img)"
    using assms(7-10) by simp
  have n: "\<not> any_negative (ceil_divide (img_shape img) (divide_scalar zoom_th (img_zooms img)))"
    by (rule ceil_divide_nonneg [OF assms(5) divide_scalar_positive [OF assms(4) p]])
  have f: "fst first = Inr (out_file, out_mask)"
    and z: "map_option img_zooms (snd first out_file) = Some (zoom_th, zoom_th, zoom_th)"
    using assms(1,2,3) n
    by (auto simp add: assms(11,12,13) conditional_downsampling_def Let_def apply_to_reference_def
        Nifti1Image_def assms(6,7) axis_aligned_new_zooms [OF assms(4,8,9,10)]
        simp del: diag_dot.simps divide_scalar.simps from_matvec.simps voxel_sizes.simps)
  from z obtain img1 where i: "snd first out_file = Some img1"
    and "img_zooms img1 = (zoom_th, zoom_th, zoom_th)"
    by auto
  then have "\<not> any_less (img_zooms img1) zoom_th"
    by simp
  from downsample_noop [of "snd first" out_file img1 zoom_th, OF i this] f z show ?thesis
    by simp
qed

lemma sqrt_16: "sqrt 16 = 4"
  by (rule real_sqrt_unique) simp_all

lemma sqrt_64: "sqrt 64 = 8"
  by (rule real_sqrt_unique) simp_all

lemma sqrt_256: "sqrt 256 = 16"
  by (rule real_sqrt_unique) simp_all

lemma first_run_value:
  "fst first_run = Inr (''/work/desc-resampled_input.nii.gz'', ''/work/desc-resampled_mask.nii.gz'')"
  "map_option img_zooms (snd first_run ''/work/desc-resampled_input.nii.gz'') = Some (2, 8, 4)"
  "map_option img_shape (snd first_run ''/work/desc-resampled_input.nii.gz'') = Some (2, 4, 8)"
  "map_option img_affine (snd first_run ''/work/desc-resampled_input.nii.gz'') = 
      Some ((0, 8, 0, -5), (2, 0, 0, 5/2), (0, 0, 4, 0), (0, 0, 0, 1))"
  by (simp_all add: first_run_def conditional_downsampling_def example_files_def permuted_t1w_def
      Let_def Nifti1Image_def apply_to_reference_def sqrt_16 sqrt_64)

lemma second_run_value:
  "fst second_run = Inr (''/work/desc-resampled_input.nii.gz'', ''/work/desc-resampled_mask.nii.gz'')"
  "map_option img_zooms (snd second_run ''/work/desc-resampled_input.nii.gz'') = Some (1, 16, 4)"
  "map_option img_shape (snd second_run ''/work/desc-resampled_input.nii.gz'') = Some (1, 8, 8)"
  by (simp_all add: second_run_def first_run_def conditional_downsampling_def example_files_def permuted_t1w_def
      Let_def Nifti1Image_def apply_to_reference_def sqrt_16 sqrt_64 sqrt_256)

text \<open>
  C6, at an input where the code departs from the claim. The first run on the 1 x 2 x 4 mm
  image with swapped axes resamples, and its output has voxel sizes 2 x 8 x 4 mm, not
  4 x 4 x 4 mm: \<open>np.diag(scaling).dot(...)\<close> scales the rows of the 3x3 block, the world
  axes, by factors computed per voxel axis, the columns. The second run on that output
  finds 2 mm below the threshold, resamples again to another shape and overwrites the
  files.
\<close>

theorem downsample_rerun_permuted_axes:
  "fst first_run =
     Inr (''/work/desc-resampled_input.nii.gz'', ''/work/desc-resampled_mask.nii.gz'')
   \<and> map_option img_zooms (snd first_run ''/work/desc-resampled_input.nii.gz'') = Some (2, 8, 4)
   \<and> map_option img_shape (snd first_run ''/work/desc-resampled_input.nii.gz'') = Some (2, 4, 8)
   \<and> fst second_run =
       Inr (''/work/desc-resampled_input.nii.gz'', ''/work/desc-resampled_mask.nii.gz'')
   \<and> map_option img_zooms (snd second_run ''/work/desc-resampled_input.nii.gz'') = Some (1, 16, 4)
   \<and> map_option img_shape (snd second_run ''/work/desc-resampled_input.nii.gz'') = Some (1, 8, 8)
   \<and> snd second_run \<noteq> snd first_run"
proof -
  have "snd second_run \<noteq> snd first_run"
    using first_run_value(3) second_run_value(3) by auto
  then show ?thesis
    by (simp add: first_run_value second_run_value)
qed

section \<open>Properties of the registration workflows\<close>
























end
